theory Spec2Isabelle
  imports Main "HOL-Library.AList"
begin

section \<open>Bib-to-DBLP: the query client and the entry reconciler of bib2dblp.py\<close>

text \<open>
  The program reads a bibliography, asks DBLP for every entry's title, and replaces the
  entry by the first hit's record under the entry's own citation key. Its logic is in
  two functions, \<^verbatim>\<open>search_dblp_entry\<close> (one title, with retries) and
  \<^verbatim>\<open>update_bib_file\<close> (the loop over the entries). Both are embedded below with
  the network, the BibTeX parser, the log, the console and the clock made explicit:
  the network and the parser are parameters, everything the program prints, logs,
  requests, sleeps or writes is appended to a trace, and an exception is a value.
\<close>

subsection \<open>Exceptions, messages and the trace\<close>

text \<open>
  The exceptions the code can meet. \<open>AttributeError\<close>, \<open>KeyError\<close>,
  \<open>TypeError\<close> and \<open>IndexError\<close> come from reading the decoded search answer,
  \<open>JSONDecodeError\<close> from \<^verbatim>\<open>resp.json()\<close>, \<open>ValueError\<close> and
  \<open>OverflowError\<close> from \<^verbatim>\<open>time.sleep\<close> with a length it does not accept, and
  \<open>LibraryError\<close> stands for whatever
  \<^verbatim>\<open>requests.get\<close> or \<^verbatim>\<open>bibtexparser.loads\<close> raise (all of them subclasses of
  \<^verbatim>\<open>Exception\<close>).
\<close>

datatype exn =
    AttributeError
  | KeyError
  | TypeError
  | IndexError
  | JSONDecodeError
  | ValueError
  | OverflowError
  | LibraryError string

datatype level = Info | Warning | Error

text \<open>
  One constructor per message template of the source, holding the interpolated values:
  \<^item> \<open>AttemptFailed n key title\<close>:
    \<^verbatim>\<open>Attempt {n}: Failed to search DBLP for key: {key}, title: {title}\<close>
  \<^item> \<open>NoResults key title\<close>:
    \<^verbatim>\<open>No results found on DBLP for key: {key}, title: {title}\<close>
  \<^item> \<open>AttemptError n key title e\<close>:
    \<^verbatim>\<open>Attempt {n}: Error occurred while searching for key: {key}, title: {title} - {e}\<close>
  \<^item> \<open>AllFailed max_retries key title\<close>:
    \<^verbatim>\<open>All {max_retries} attempts failed for key: {key}, title: {title}\<close>
  \<^item> \<open>Searching key title\<close>:
    \<^verbatim>\<open>Searching DBLP for key: {key}, title: {title}\<close>
  \<^item> \<open>NoParsed key title\<close>:
    \<^verbatim>\<open>No parsed BibTeX found for key: {key}, title: {title}\<close>
  \<^item> \<open>Keeping key title\<close>:
    \<^verbatim>\<open>Keeping original entry for key: {key}, title: {title}\<close>
\<close>

datatype message =
    AttemptFailed int string string
  | NoResults string string
  | AttemptError int string string exn
  | AllFailed int string string
  | Searching string string
  | NoParsed string string
  | Keeping string string

record request =
  url :: string
  params :: "(string \<times> string) list"

type_synonym entry = "(string \<times> string) list"

datatype event =
    Request request
  | Print message
  | Log level message
  | Sleep int
  | Dump string "entry list"
  | WriteFile string string

text \<open>
  The state the program runs in: the outside world (whatever decides the network's next
  answer) and the trace of what the program has done so far, oldest event first.
\<close>

record 'w state =
  world :: 'w
  trace :: "event list"

definition record_event :: "event \<Rightarrow> 'w state \<Rightarrow> 'w state" where
  "record_event ev st = st\<lparr>trace := trace st @ [ev]\<rparr>"

text \<open>\<^verbatim>\<open>print(msg); logging.<level>(msg)\<close>: the log level is INFO, so every call is recorded.\<close>

definition emit :: "level \<Rightarrow> message \<Rightarrow> 'w state \<Rightarrow> 'w state" where
  "emit lvl msg st = record_event (Log lvl msg) (record_event (Print msg) st)"

text \<open>
  \<^verbatim>\<open>time.sleep(d)\<close> for a whole number of seconds, as CPython does it: the length is
  first converted to a 64-bit count of nanoseconds, which raises OverflowError beyond
  9223372036 seconds in either direction; then a negative length raises ValueError;
  otherwise the program waits.
\<close>

definition sleep_max :: int where
  "sleep_max = 9223372036"

definition sleep :: "int \<Rightarrow> 'w state \<Rightarrow> (exn + unit) \<times> 'w state" where
  "sleep d st =
     (if d < - sleep_max \<or> sleep_max < d then (Inl OverflowError, st)
      else if d < 0 then (Inl ValueError, st)
      else (Inr (), record_event (Sleep d) st))"

subsection \<open>The network\<close>

text \<open>
  A response as far as the code reads it: the status, the body, and what
  \<^verbatim>\<open>.json()\<close> returns (\<open>None\<close> when it raises). The decoded answer is a Python
  value; a number is kept as an integer, of which the code only observes whether it is
  zero.
\<close>

datatype pyval =
    PNone
  | PBool bool
  | PNum int
  | PStr string
  | PList "pyval list"
  | PDict "(string \<times> pyval) list"

record response =
  status_code :: int
  body_text :: string
  json :: "pyval option"

type_synonym 'w network = "request \<Rightarrow> 'w \<Rightarrow> (exn + response) \<times> 'w"

text \<open>\<^verbatim>\<open>requests.get\<close>: the request is recorded, the world answers or raises.\<close>

definition http_get :: "'w network \<Rightarrow> request \<Rightarrow> 'w state \<Rightarrow> (exn + response) \<times> 'w state" where
  "http_get net req st =
     (case net req (world st) of
        (r, w') \<Rightarrow> (r, \<lparr>world = w', trace = trace st @ [Request req]\<rparr>))"

subsection \<open>Reading the decoded search answer\<close>

text \<open>Python truthiness (\<^verbatim>\<open>if not hits\<close>, \<^verbatim>\<open>if dblp_url\<close>).\<close>

fun truthy :: "pyval \<Rightarrow> bool" where
  "truthy PNone = False"
| "truthy (PBool b) = b"
| "truthy (PNum n) = (n \<noteq> 0)"
| "truthy (PStr s) = (s \<noteq> [])"
| "truthy (PList xs) = (xs \<noteq> [])"
| "truthy (PDict kvs) = (kvs \<noteq> [])"

text \<open>\<^verbatim>\<open>v.get(k, d)\<close>: only a dict has the method.\<close>

fun py_get :: "pyval \<Rightarrow> string \<Rightarrow> pyval \<Rightarrow> exn + pyval" where
  "py_get (PDict kvs) k d = (case map_of kvs k of Some v \<Rightarrow> Inr v | None \<Rightarrow> Inr d)"
| "py_get _ k d = Inl AttributeError"

text \<open>\<^verbatim>\<open>v[0]\<close>: a decoded dict has string keys only, so 0 is never one of them.\<close>

fun py_index0 :: "pyval \<Rightarrow> exn + pyval" where
  "py_index0 (PList []) = Inl IndexError"
| "py_index0 (PList (x # xs)) = Inr x"
| "py_index0 (PStr []) = Inl IndexError"
| "py_index0 (PStr (c # cs)) = Inr (PStr [c])"
| "py_index0 (PDict kvs) = Inl KeyError"
| "py_index0 _ = Inl TypeError"

text \<open>\<^verbatim>\<open>v[k]\<close> for a string \<open>k\<close>.\<close>

fun py_item :: "pyval \<Rightarrow> string \<Rightarrow> exn + pyval" where
  "py_item (PDict kvs) k = (case map_of kvs k of Some v \<Rightarrow> Inr v | None \<Rightarrow> Inl KeyError)"
| "py_item _ k = Inl TypeError"

text \<open>\<^verbatim>\<open>data.get("result", {}).get("hits", {}).get("hit", [])\<close>\<close>

definition get_hits :: "pyval \<Rightarrow> exn + pyval" where
  "get_hits data =
     (case py_get data ''result'' (PDict []) of
        Inl e \<Rightarrow> Inl e
      | Inr result \<Rightarrow>
          (case py_get result ''hits'' (PDict []) of
             Inl e \<Rightarrow> Inl e
           | Inr hits \<Rightarrow> py_get hits ''hit'' (PList [])))"

text \<open>\<^verbatim>\<open>hits[0]["info"].get("url")\<close>\<close>

definition hit_url :: "pyval \<Rightarrow> exn + pyval" where
  "hit_url hits =
     (case py_index0 hits of
        Inl e \<Rightarrow> Inl e
      | Inr hit \<Rightarrow>
          (case py_item hit ''info'' of
             Inl e \<Rightarrow> Inl e
           | Inr info \<Rightarrow> py_get info ''url'' PNone))"

text \<open>\<^verbatim>\<open>dblp_url + ".bib"\<close>: only a string can be extended by a string.\<close>

fun bibtex_url :: "pyval \<Rightarrow> exn + string" where
  "bibtex_url (PStr u) = Inr (u @ ''.bib'')"
| "bibtex_url _ = Inl TypeError"

subsection \<open>search_dblp_entry\<close>

definition search_request :: "string \<Rightarrow> request" where
  "search_request title =
     \<lparr>url = ''https://dblp.org/search/publ/api'',
      params = [(''q'', title), (''format'', ''json'')]\<rparr>"

text \<open>
  How one pass through the \<^verbatim>\<open>try\<close> block ends: with a \<^verbatim>\<open>return\<close>, with the
  \<^verbatim>\<open>continue\<close> of the non-200 branch, by falling out of the block, or with an
  exception for the \<^verbatim>\<open>except\<close> clause.
\<close>

datatype ctl = Return "string option" | Continue | Fall | Raise exn

text \<open>
  The \<^verbatim>\<open>try\<close> block (source lines 18 to 40). It returns how the block ended, the value of
  \<open>attempt\<close> at that point (the non-200 branch increments it before it sleeps) and
  the state.
\<close>

definition try_block ::
  "'w network \<Rightarrow> string \<Rightarrow> string \<Rightarrow> int \<Rightarrow> int \<Rightarrow> 'w state \<Rightarrow> ctl \<times> int \<times> 'w state" where
  "try_block net title key delay attempt st =
     (case http_get net (search_request title) st of
        (Inl e, st1) \<Rightarrow> (Raise e, attempt, st1)
      | (Inr resp, st1) \<Rightarrow>
          if status_code resp \<noteq> 200 then
            (case sleep delay (emit Warning (AttemptFailed (attempt + 1) key title) st1) of
               (Inl e, st2) \<Rightarrow> (Raise e, attempt + 1, st2)
             | (Inr u, st2) \<Rightarrow> (Continue, attempt + 1, st2))
          else
            (case json resp of
               None \<Rightarrow> (Raise JSONDecodeError, attempt, st1)
             | Some data \<Rightarrow>
                 (case get_hits data of
                    Inl e \<Rightarrow> (Raise e, attempt, st1)
                  | Inr hits \<Rightarrow>
                      if \<not> truthy hits then
                        (Return None, attempt, emit Info (NoResults key title) st1)
                      else
                        (case hit_url hits of
                           Inl e \<Rightarrow> (Raise e, attempt, st1)
                         | Inr dblp_url \<Rightarrow>
                             if truthy dblp_url then
                               (case bibtex_url dblp_url of
                                  Inl e \<Rightarrow> (Raise e, attempt, st1)
                                | Inr burl \<Rightarrow>
                                    (case http_get net \<lparr>url = burl, params = []\<rparr> st1 of
                                       (Inl e, st2) \<Rightarrow> (Raise e, attempt, st2)
                                     | (Inr bibtex_resp, st2) \<Rightarrow>
                                         if status_code bibtex_resp = 200
                                         then (Return (Some (body_text bibtex_resp)), attempt, st2)
                                         else (Fall, attempt, st2)))
                             else (Fall, attempt, st1)))))"

lemma try_block_attempt:
  "try_block net title key delay attempt st = (c, a, st') \<Longrightarrow>
     (c = Continue \<longrightarrow> a = attempt + 1) \<and> attempt \<le> a"
  by (auto simp: try_block_def split: prod.splits sum.splits if_splits option.splits)

text \<open>
  The \<^verbatim>\<open>while attempt < max_retries\<close> loop with its \<^verbatim>\<open>except\<close> clause and the
  \<^verbatim>\<open>attempt += 1; time.sleep(delay)\<close> after it (lines 16 to 52). \<open>Inl e\<close> is an
  exception that leaves the function, \<open>Inr r\<close> the returned value.
\<close>

function search_loop ::
  "'w network \<Rightarrow> string \<Rightarrow> string \<Rightarrow> int \<Rightarrow> int \<Rightarrow> int \<Rightarrow> 'w state
     \<Rightarrow> (exn + string option) \<times> 'w state" where
  "search_loop net title key max_retries delay attempt st =
     (if attempt < max_retries then
        (case try_block net title key delay attempt st of
           (Return r, a, st1) \<Rightarrow> (Inr r, st1)
         | (Continue, a, st1) \<Rightarrow> search_loop net title key max_retries delay a st1
         | (Fall, a, st1) \<Rightarrow>
             (case sleep delay st1 of
                (Inl e, st2) \<Rightarrow> (Inl e, st2)
              | (Inr u, st2) \<Rightarrow> search_loop net title key max_retries delay (a + 1) st2)
         | (Raise e, a, st1) \<Rightarrow>
             (case sleep delay (emit Error (AttemptError (a + 1) key title e) st1) of
                (Inl e', st2) \<Rightarrow> (Inl e', st2)
              | (Inr u, st2) \<Rightarrow> search_loop net title key max_retries delay (a + 1) st2))
      else (Inr None, emit Error (AllFailed max_retries key title) st))"
  by pat_completeness auto
termination
proof (relation "measure (\<lambda>(net, title, key, max_retries, delay, attempt, st). nat (max_retries - attempt))")
  show "wf (measure (\<lambda>(net, title, key, max_retries, delay, attempt, st). nat (max_retries - attempt)))"
    by simp
qed (auto dest!: try_block_attempt [OF sym])

declare search_loop.simps [simp del]

definition search_dblp_entry ::
  "'w network \<Rightarrow> string \<Rightarrow> string \<Rightarrow> int \<Rightarrow> int \<Rightarrow> 'w state \<Rightarrow> (exn + string option) \<times> 'w state" where
  "search_dblp_entry net title key max_retries delay st =
     search_loop net title key max_retries delay 0 st"

subsection \<open>update_bib_file\<close>

text \<open>
  An entry is the dict bibtexparser makes of a record: field names to field values, the
  citation key under \<open>ID\<close>. \<^verbatim>\<open>d[k] = v\<close> is \<open>AList.update k v d\<close>: the value is
  replaced where the key stands, or the pair is added at the end.

  \<^verbatim>\<open>entry.get("title", "").replace("{", "").replace("}", "")\<close>
\<close>

definition entry_title :: "entry \<Rightarrow> string" where
  "entry_title entry =
     filter (\<lambda>c. c \<noteq> CHR ''}'')
       (filter (\<lambda>c. c \<noteq> CHR ''{'')
          (case map_of entry ''title'' of None \<Rightarrow> [] | Some t \<Rightarrow> t))"

type_synonym parser = "string \<Rightarrow> exn + entry list"

text \<open>\<^verbatim>\<open>time.sleep(1)\<close> at the end of the loop body, then on to the next entry.\<close>

definition pause ::
  "entry list \<times> string list \<Rightarrow> 'w state \<Rightarrow> (exn + entry list \<times> string list) \<times> 'w state" where
  "pause acc st = (case sleep 1 st of (Inl e, st') \<Rightarrow> (Inl e, st') | (Inr u, st') \<Rightarrow> (Inr acc, st'))"

text \<open>
  The body of \<^verbatim>\<open>for entry in bib_database.entries\<close> (lines 65 to 91), on the two
  accumulators \<open>updated_entries\<close> and \<open>failed_keys\<close>. \<open>loads\<close> is
  \<^verbatim>\<open>bibtexparser.loads\<close>, giving \<^verbatim>\<open>new_db.entries\<close> or raising; the call stands
  outside every \<^verbatim>\<open>try\<close>, so what it raises leaves the function.
\<close>

definition update_entry ::
  "'w network \<Rightarrow> parser \<Rightarrow> entry \<Rightarrow> entry list \<times> string list \<Rightarrow> 'w state
     \<Rightarrow> (exn + entry list \<times> string list) \<times> 'w state" where
  "update_entry net loads entry acc st =
     (case acc of (updated_entries, failed_keys) \<Rightarrow>
        (let title = entry_title entry in
         case map_of entry ''ID'' of
           None \<Rightarrow> (Inr acc, st)
         | Some original_key \<Rightarrow>
             if title = [] \<or> original_key = [] then (Inr acc, st)
             else
               (case search_dblp_entry net title original_key 5 2
                       (emit Info (Searching original_key title) st) of
                  (Inl e, st1) \<Rightarrow> (Inl e, st1)
                | (Inr new_bibtex, st1) \<Rightarrow>
                    (case new_bibtex of
                       Some (c # cs) \<Rightarrow>
                         (case loads (c # cs) of
                            Inl e \<Rightarrow> (Inl e, st1)
                          | Inr (new_entry # others) \<Rightarrow>
                              pause (updated_entries @ [AList.update ''ID'' original_key new_entry],
                                     failed_keys) st1
                          | Inr [] \<Rightarrow>
                              pause (updated_entries @ [entry], failed_keys @ [original_key])
                                (emit Warning (NoParsed original_key title) st1))
                     | _ \<Rightarrow>
                         pause (updated_entries @ [entry], failed_keys @ [original_key])
                           (emit Info (Keeping original_key title) st1)))))"

fun update_loop ::
  "'w network \<Rightarrow> parser \<Rightarrow> entry list \<Rightarrow> entry list \<times> string list \<Rightarrow> 'w state
     \<Rightarrow> (exn + entry list \<times> string list) \<times> 'w state" where
  "update_loop net loads [] acc st = (Inr acc, st)"
| "update_loop net loads (entry # rest) acc st =
     (case update_entry net loads entry acc st of
        (Inl e, st') \<Rightarrow> (Inl e, st')
      | (Inr acc', st') \<Rightarrow> update_loop net loads rest acc' st')"

text \<open>
  \<^verbatim>\<open>update_bib_file\<close> from the parsed input (\<open>entries\<close> is
  \<^verbatim>\<open>bib_database.entries\<close>) to the two writes: the dump of \<open>updated_entries\<close> to
  \<open>output_file\<close>, and \<^verbatim>\<open>failed_keys.txt\<close> when there is a failed key. The Python
  function returns nothing; the model returns the two lists it has written, or the
  exception that ended the run before anything was written.
\<close>

definition update_bib_file ::
  "'w network \<Rightarrow> parser \<Rightarrow> entry list \<Rightarrow> string \<Rightarrow> 'w state
     \<Rightarrow> (exn + entry list \<times> string list) \<times> 'w state" where
  "update_bib_file net loads entries output_file st =
     (case update_loop net loads entries ([], []) st of
        (Inl e, st') \<Rightarrow> (Inl e, st')
      | (Inr (updated_entries, failed_keys), st') \<Rightarrow>
          (let st1 = record_event (Dump output_file updated_entries) st';
               st2 = (if failed_keys \<noteq> []
                      then record_event
                             (WriteFile ''failed_keys.txt''
                                (concat (map (\<lambda>key. key @ [CHR 0x0A]) failed_keys))) st1
                      else st1)
           in (Inr (updated_entries, failed_keys), st2)))"

subsection \<open>What the claims speak of\<close>

text \<open>
  An entry is processed when it has a title that is not empty once the braces are
  stripped, and a citation key that is not empty: the negation of the test
  \<^verbatim>\<open>if not title or not original_key: continue\<close>.
\<close>

definition processed :: "entry \<Rightarrow> bool" where
  "processed entry =
     (entry_title entry \<noteq> [] \<and>
      (case map_of entry ''ID'' of None \<Rightarrow> False | Some k \<Rightarrow> k \<noteq> []))"

text \<open>
  What became of a processed entry: the source entry was kept, or the first entry of the
  parsed record took its place. \<open>output_entry\<close> is the entry a source entry leaves
  in the output under an outcome (a replacing entry gets the source's key), and
  \<open>failure_key\<close> what it adds to the failure list.
\<close>

datatype outcome = Kept | Replaced entry

fun output_entry :: "entry \<Rightarrow> outcome \<Rightarrow> entry" where
  "output_entry src Kept = src"
| "output_entry src (Replaced new_entry) =
     (case map_of src ''ID'' of
        None \<Rightarrow> new_entry
      | Some k \<Rightarrow> AList.update ''ID'' k new_entry)"

fun failure_key :: "entry \<Rightarrow> outcome \<Rightarrow> string list" where
  "failure_key src Kept = (case map_of src ''ID'' of None \<Rightarrow> [] | Some k \<Rightarrow> [k])"
| "failure_key src (Replaced new_entry) = []"

text \<open>
  What the merge policy (lines 73 to 90) makes of the query's answer: the entry is kept
  when there is no record, an empty one, or one that parses to no entry, and it is
  replaced by the first parsed entry otherwise; when the parser raises there is no
  outcome but its exception.
\<close>

definition decide :: "parser \<Rightarrow> string option \<Rightarrow> exn + outcome" where
  "decide loads new_bibtex =
     (case new_bibtex of
        None \<Rightarrow> Inr Kept
      | Some raw \<Rightarrow>
          if raw = [] then Inr Kept
          else
            (case loads raw of
               Inl e \<Rightarrow> Inl e
             | Inr [] \<Rightarrow> Inr Kept
             | Inr (new_entry # others) \<Rightarrow> Inr (Replaced new_entry)))"

text \<open>
  The outcome of one entry in a run: the decision on what the query answers for that
  entry's title from the state the run has reached (\<open>None\<close> for an entry that is not
  processed, and when the query or the parser raises). \<open>run_outcomes\<close> lists the
  outcomes of a run in the order of the input, the state going from entry to entry as
  the loop body leaves it.
\<close>

definition entry_outcome :: "'w network \<Rightarrow> parser \<Rightarrow> entry \<Rightarrow> 'w state \<Rightarrow> outcome option" where
  "entry_outcome net loads entry st =
     (case map_of entry ''ID'' of
        None \<Rightarrow> None
      | Some key \<Rightarrow>
          if \<not> processed entry then None
          else
            (case fst (search_dblp_entry net (entry_title entry) key 5 2
                         (emit Info (Searching key (entry_title entry)) st)) of
               Inl e \<Rightarrow> None
             | Inr new_bibtex \<Rightarrow>
                 (case decide loads new_bibtex of Inl e \<Rightarrow> None | Inr oc \<Rightarrow> Some oc)))"

fun run_outcomes :: "'w network \<Rightarrow> parser \<Rightarrow> entry list \<Rightarrow> 'w state \<Rightarrow> outcome list" where
  "run_outcomes net loads [] st = []"
| "run_outcomes net loads (entry # rest) st =
     (case entry_outcome net loads entry st of None \<Rightarrow> [] | Some oc \<Rightarrow> [oc]) @
     run_outcomes net loads rest (snd (update_entry net loads entry ([], []) st))"


subsection \<open>Example runs\<close>

text \<open>
  A small world for the examples: nothing changes between requests (the world is
  \<open>()\<close>), and the run starts with an empty trace.
\<close>

definition start :: "unit state" where
  "start = \<lparr>world = (), trace = []\<rparr>"

text \<open>A network that is down, and a service that answers every request with 503.\<close>

definition offline_net :: "unit network" where
  "offline_net req w = (Inl (LibraryError ''ConnectionError''), w)"


text \<open>
  A service that knows five titles. The search answers are shaped as DBLP's: one hit
  with its record URL, or no \<open>hit\<close> field at all. The five records are: a BibTeX
  record; an empty body; a record whose journal is a string macro that is not defined; a
  record whose title has no capital letter; a record that is cut off after its opening
  brace.
\<close>

definition hits_json :: "string \<Rightarrow> pyval" where
  "hits_json u =
     PDict [(''result'', PDict [(''hits'', PDict [(''hit'',
       PList [PDict [(''info'', PDict [(''url'', PStr u)])]])])])]"

definition no_hits_json :: pyval where
  "no_hits_json = PDict [(''result'', PDict [(''hits'', PDict [(''@total'', PStr ''0'')])])]"

definition ok :: "string \<Rightarrow> pyval option \<Rightarrow> response" where
  "ok body js = \<lparr>status_code = 200, body_text = body, json = js\<rparr>"

definition attention_bib :: string where
  "attention_bib =
     ''@inproceedings{attention17, author = {Vaswani et al.}, title = {Attention Is All You Need}}''"

definition macro_bib :: string where
  "macro_bib = ''@article{DBLP:journals/x/Roe21, title = {Broken}, journal = jmlr}''"

definition sorting_bib :: string where
  "sorting_bib = ''@article{DBLP:journals/x/Doe20, title = {sorting in linear time}, year = {2020}}''"

definition cut_bib :: string where
  "cut_bib = ''@article{''"

definition dblp_net :: "unit network" where
  "dblp_net req w =
     (if url req = ''https://dblp.org/search/publ/api'' then
        (if map_of (params req) ''q'' = Some ''Attention Is All You Need''
         then (Inr (ok [] (Some (hits_json ''https://dblp.org/rec/a''))), w)
         else if map_of (params req) ''q'' = Some ''Blank''
         then (Inr (ok [] (Some (hits_json ''https://dblp.org/rec/b''))), w)
         else if map_of (params req) ''q'' = Some ''Broken''
         then (Inr (ok [] (Some (hits_json ''https://dblp.org/rec/c''))), w)
         else if map_of (params req) ''q'' = Some ''sorting in linear time''
         then (Inr (ok [] (Some (hits_json ''https://dblp.org/rec/d''))), w)
         else if map_of (params req) ''q'' = Some ''Cut''
         then (Inr (ok [] (Some (hits_json ''https://dblp.org/rec/e''))), w)
         else (Inr (ok [] (Some no_hits_json)), w))
      else if url req = ''https://dblp.org/rec/a.bib'' then (Inr (ok attention_bib None), w)
      else if url req = ''https://dblp.org/rec/b.bib'' then (Inr (ok [] None), w)
      else if url req = ''https://dblp.org/rec/c.bib'' then (Inr (ok macro_bib None), w)
      else if url req = ''https://dblp.org/rec/d.bib'' then (Inr (ok sorting_bib None), w)
      else if url req = ''https://dblp.org/rec/e.bib'' then (Inr (ok cut_bib None), w)
      else (Inr \<lparr>status_code = 404, body_text = [], json = None\<rparr>, w))"

text \<open>
  What bibtexparser makes of these records: the fields of the record with its type under
  \<open>ENTRYTYPE\<close> and its key under \<open>ID\<close> (the order of the pairs plays no part in
  the program). \<open>example_loads\<close> is \<^verbatim>\<open>bibtexparser.loads\<close> on the texts the
  service sends: the two whole records parse to one entry each, the macro that is not
  defined makes the parser raise its \<^verbatim>\<open>UndefinedString\<close>, and the record that is
  cut off parses to no entry. Other texts do not occur in the examples.
\<close>

definition attention17 :: entry where
  "attention17 =
     [(''author'', ''Vaswani et al.''), (''title'', ''Attention Is All You Need''),
      (''ENTRYTYPE'', ''inproceedings''), (''ID'', ''attention17'')]"

definition doe20 :: entry where
  "doe20 =
     [(''title'', ''sorting in linear time''), (''year'', ''2020''),
      (''ENTRYTYPE'', ''article''), (''ID'', ''DBLP:journals/x/Doe20'')]"

definition example_loads :: parser where
  "example_loads raw =
     (if raw = attention_bib then Inr [attention17]
      else if raw = sorting_bib then Inr [doe20]
      else if raw = macro_bib then Inl (LibraryError ''UndefinedString'')
      else Inr [])"

text \<open>
  Source entries, as the input parser with its \<^verbatim>\<open>homogenize_latex_encoding\<close> gives
  them (a capital letter of a title comes in braces): one DBLP knows, one without a key,
  one DBLP does not know, one whose record is empty, one whose record makes the parser
  raise, one whose record is cut off, one whose title is braces only, and one that is
  the record DBLP has for its title, under its own key.
\<close>

definition foo2020 :: entry where
  "foo2020 =
     [(''title'', ''{A}ttention {I}s {A}ll {Y}ou {N}eed''), (''ENTRYTYPE'', ''article''),
      (''ID'', ''foo2020'')]"

definition nokey :: entry where
  "nokey = [(''title'', ''{A}ttention {I}s {A}ll {Y}ou {N}eed''), (''ENTRYTYPE'', ''article'')]"

definition bar2021 :: entry where
  "bar2021 =
     [(''title'', ''{A}n {U}nknown {P}aper''), (''ENTRYTYPE'', ''article''), (''ID'', ''bar2021'')]"

definition blank :: entry where
  "blank = [(''title'', ''{B}lank''), (''ENTRYTYPE'', ''article''), (''ID'', ''blank'')]"



definition braces :: entry where
  "braces = [(''title'', ''{{}}''), (''ENTRYTYPE'', ''article''), (''ID'', ''baz2022'')]"

definition doe2020 :: entry where
  "doe2020 =
     [(''title'', ''sorting in linear time''), (''year'', ''2020''),
      (''ENTRYTYPE'', ''article''), (''ID'', ''doe2020'')]"

section \<open>Lemmas\<close>

subsection \<open>The query function\<close>

lemma sleep_ok:
  "0 \<le> d \<Longrightarrow> d \<le> sleep_max \<Longrightarrow> sleep d st = (Inr (), record_event (Sleep d) st)"
  by (simp add: sleep_def sleep_max_def)

lemma pause_eq: "pause acc st = (Inr acc, record_event (Sleep 1) st)"
  by (simp add: pause_def sleep_def sleep_max_def)

text \<open>With a delay that \<^verbatim>\<open>time.sleep\<close> accepts the query never raises: it returns.\<close>

lemma search_loop_returns:
  "0 \<le> delay \<Longrightarrow> delay \<le> sleep_max \<Longrightarrow>
     \<exists>r st'. search_loop net title key max_retries delay attempt st = (Inr r, st')"
proof (induction net title key max_retries delay attempt st rule: search_loop.induct)
  case (1 net title key max_retries delay attempt st)
  show ?case
    apply (subst search_loop.simps)
    using 1 by (auto split: prod.splits ctl.splits sum.splits simp: sleep_ok)
qed

lemma search_returns:
  "\<exists>r st'. search_dblp_entry net title key 5 2 st = (Inr r, st')"
  unfolding search_dblp_entry_def by (rule search_loop_returns) (simp_all add: sleep_max_def)






subsection \<open>The loop over the entries\<close>

lemma update_entry_skip:
  "\<not> processed entry \<Longrightarrow> update_entry net loads entry acc st = (Inr acc, st)"
  by (auto simp: update_entry_def processed_def Let_def split: option.splits prod.splits)

text \<open>A processed entry adds its output to the one list and, when kept, its key to the other.\<close>

lemma update_entry_processed:
  assumes "processed entry"
    and "update_entry net loads entry (upd, failed) st = (Inr (upd', failed'), st')"
  shows "\<exists>oc. upd' = upd @ [output_entry entry oc] \<and> failed' = failed @ failure_key entry oc"
proof -
  from assms(1) obtain k where
    k: "map_of entry ''ID'' = Some k" "k \<noteq> []" "entry_title entry \<noteq> []"
    by (auto simp: processed_def split: option.splits)
  from assms(2) k have
    "(upd' = upd @ [entry] \<and> failed' = failed @ [k]) \<or>
     (\<exists>new_entry. upd' = upd @ [AList.update ''ID'' k new_entry] \<and> failed' = failed)"
    by (auto simp: update_entry_def Let_def pause_eq
             split: prod.splits sum.splits option.splits list.splits)
  then show ?thesis
  proof
    assume "upd' = upd @ [entry] \<and> failed' = failed @ [k]"
    with k have
      "upd' = upd @ [output_entry entry Kept] \<and> failed' = failed @ failure_key entry Kept"
      by simp
    then show ?thesis ..
  next
    assume "\<exists>new_entry. upd' = upd @ [AList.update ''ID'' k new_entry] \<and> failed' = failed"
    then obtain n where "upd' = upd @ [AList.update ''ID'' k n] \<and> failed' = failed" ..
    with k have
      "upd' = upd @ [output_entry entry (Replaced n)] \<and>
       failed' = failed @ failure_key entry (Replaced n)"
      by simp
    then show ?thesis ..
  qed
qed

lemma update_loop_outcomes:
  "update_loop net loads entries (upd, failed) st = (Inr (upd', failed'), st') \<Longrightarrow>
   \<exists>ocs. length ocs = length (filter processed entries) \<and>
         upd' = upd @ map2 output_entry (filter processed entries) ocs \<and>
         failed' = failed @ concat (map2 failure_key (filter processed entries) ocs)"
proof (induction entries arbitrary: upd failed st)
  case Nil
  then show ?case by simp
next
  case (Cons e es)
  from Cons.prems obtain u1 f1 st1 where
    step: "update_entry net loads e (upd, failed) st = (Inr (u1, f1), st1)"
    and rest: "update_loop net loads es (u1, f1) st1 = (Inr (upd', failed'), st')"
    by (auto split: prod.splits sum.splits)
  from Cons.IH [OF rest] obtain ocs where ocs:
    "length ocs = length (filter processed es)"
    "upd' = u1 @ map2 output_entry (filter processed es) ocs"
    "failed' = f1 @ concat (map2 failure_key (filter processed es) ocs)"
    by blast
  show ?case
  proof (cases "processed e")
    case False
    with step have "u1 = upd" "f1 = failed" by (simp_all add: update_entry_skip)
    with ocs False show ?thesis by auto
  next
    case True
    from update_entry_processed [OF True step] obtain oc where
      oc: "u1 = upd @ [output_entry e oc]" "f1 = failed @ failure_key e oc" by blast
    with ocs True have
      "length (oc # ocs) = length (filter processed (e # es)) \<and>
       upd' = upd @ map2 output_entry (filter processed (e # es)) (oc # ocs) \<and>
       failed' = failed @ concat (map2 failure_key (filter processed (e # es)) (oc # ocs))"
      by simp
    then show ?thesis by blast
  qed
qed

lemma update_bib_file_Inr:
  "fst (update_bib_file net loads entries output_file st) = Inr (updated_entries, failed_keys) \<Longrightarrow>
   \<exists>st'. update_loop net loads entries ([], []) st = (Inr (updated_entries, failed_keys), st')"
  by (auto simp: update_bib_file_def Let_def split: prod.splits sum.splits)

lemma update_bib_file_outcomes:
  assumes "fst (update_bib_file net loads entries output_file st) =
             Inr (updated_entries, failed_keys)"
  shows "\<exists>ocs. length ocs = length (filter processed entries) \<and>
               updated_entries = map2 output_entry (filter processed entries) ocs \<and>
               failed_keys = concat (map2 failure_key (filter processed entries) ocs)"
proof -
  from update_bib_file_Inr [OF assms] obtain st' where
    "update_loop net loads entries ([], []) st = (Inr (updated_entries, failed_keys), st')" ..
  from update_loop_outcomes [OF this] show ?thesis by simp
qed

lemma output_entry_key:
  "processed src \<Longrightarrow> map_of (output_entry src oc) ''ID'' = map_of src ''ID''"
  by (cases oc) (auto simp: processed_def update_conv' split: option.splits)

lemma map2_output_keys:
  "length ocs = length srcs \<Longrightarrow> \<forall>src \<in> set srcs. processed src \<Longrightarrow>
   map (\<lambda>e. map_of e ''ID'') (map2 output_entry srcs ocs) = map (\<lambda>e. map_of e ''ID'') srcs"
  by (induction ocs srcs rule: list_induct2) (simp_all add: output_entry_key)

lemma update_loop_append:
  "update_loop net loads (xs @ ys) acc st =
     (case update_loop net loads xs acc st of
        (Inl e, st') \<Rightarrow> (Inl e, st')
      | (Inr acc', st') \<Rightarrow> update_loop net loads ys acc' st')"
  by (induction xs arbitrary: acc st) (auto split: prod.splits sum.splits)

text \<open>When the query gives nothing, every processed entry is kept.\<close>

lemma update_entry_none:
  assumes H: "\<forall>title key s. fst (search_dblp_entry net title key 5 2 s) = Inr None"
    and p: "processed entry"
  shows "\<exists>st'. update_entry net loads entry (upd, failed) st =
           (Inr (upd @ [entry], failed @ List.map_filter (\<lambda>e. map_of e ''ID'') [entry]), st')"
proof -
  from p obtain k where k: "map_of entry ''ID'' = Some k" "k \<noteq> []" "entry_title entry \<noteq> []"
    by (auto simp: processed_def split: option.splits)
  obtain r st1 where s:
    "search_dblp_entry net (entry_title entry) k 5 2
       (emit Info (Searching k (entry_title entry)) st) = (r, st1)"
    by (cases "search_dblp_entry net (entry_title entry) k 5 2
                 (emit Info (Searching k (entry_title entry)) st)") auto
  with H [rule_format, of "entry_title entry" k "emit Info (Searching k (entry_title entry)) st"]
  have "r = Inr None" by simp
  with s k show ?thesis
    by (simp add: update_entry_def Let_def pause_eq)
qed

lemma update_loop_none:
  assumes H: "\<forall>title key s. fst (search_dblp_entry net title key 5 2 s) = Inr None"
  shows "\<exists>st'. update_loop net loads entries (upd, failed) st =
           (Inr (upd @ filter processed entries,
                 failed @ List.map_filter (\<lambda>e. map_of e ''ID'') (filter processed entries)),
            st')"
proof (induction entries arbitrary: upd failed st)
  case Nil
  show ?case by simp
next
  case (Cons e es)
  show ?case
  proof (cases "processed e")
    case False
    with Cons.IH [of upd failed st] show ?thesis by (simp add: update_entry_skip)
  next
    case True
    from update_entry_none [OF H True, of loads upd failed st] obtain st1 where
      step: "update_entry net loads e (upd, failed) st =
               (Inr (upd @ [e], failed @ List.map_filter (\<lambda>e. map_of e ''ID'') [e]), st1)" ..
    from Cons.IH [of "upd @ [e]" "failed @ List.map_filter (\<lambda>e. map_of e ''ID'') [e]" st1]
    obtain st' where
      "update_loop net loads es
         (upd @ [e], failed @ List.map_filter (\<lambda>e. map_of e ''ID'') [e]) st1 =
       (Inr ((upd @ [e]) @ filter processed es,
             (failed @ List.map_filter (\<lambda>e. map_of e ''ID'') [e]) @
             List.map_filter (\<lambda>e. map_of e ''ID'') (filter processed es)), st')" ..
    with step True show ?thesis by (simp split: option.splits)
  qed
qed

text \<open>The outcomes of a run.\<close>

lemma entry_outcome_skip: "\<not> processed entry \<Longrightarrow> entry_outcome net loads entry st = None"
  by (simp add: entry_outcome_def split: option.splits)

text \<open>The state the loop body leaves does not depend on the two lists.\<close>

lemma update_entry_state:
  "snd (update_entry net loads entry acc st) = snd (update_entry net loads entry acc' st)"
  by (cases acc; cases acc')
     (simp add: update_entry_def Let_def pause_eq
           split: prod.splits sum.splits option.splits list.splits)

text \<open>The loop body on a processed entry, by the decision on the query's answer.\<close>

lemma update_entry_decide:
  assumes "map_of entry ''ID'' = Some key" and "key \<noteq> []" and "entry_title entry = title"
    and "title \<noteq> []"
    and "search_dblp_entry net title key 5 2 (emit Info (Searching key title) st) =
           (Inr new_bibtex, st1)"
  shows "case decide loads new_bibtex of
           Inl e \<Rightarrow> update_entry net loads entry (upd, failed) st = (Inl e, st1)
         | Inr Kept \<Rightarrow>
             update_entry net loads entry (upd, failed) st =
               (Inr (upd @ [entry], failed @ [key]),
                st1\<lparr>trace := trace st1 @
                      (if new_bibtex = None \<or> new_bibtex = Some []
                       then [Print (Keeping key title), Log Info (Keeping key title)]
                       else [Print (NoParsed key title), Log Warning (NoParsed key title)]) @
                      [Sleep 1]\<rparr>)
         | Inr (Replaced new_entry) \<Rightarrow>
             update_entry net loads entry (upd, failed) st =
               (Inr (upd @ [AList.update ''ID'' key new_entry], failed),
                st1\<lparr>trace := trace st1 @ [Sleep 1]\<rparr>)"
  using assms
  by (auto simp: decide_def update_entry_def Let_def pause_eq emit_def record_event_def
           split: option.splits sum.splits list.splits)

lemma update_entry_outcome:
  assumes "processed entry"
    and "update_entry net loads entry (upd, failed) st = (Inr (upd', failed'), st')"
  shows "\<exists>oc. entry_outcome net loads entry st = Some oc \<and>
              upd' = upd @ [output_entry entry oc] \<and> failed' = failed @ failure_key entry oc"
proof -
  from assms(1) obtain key where
    k: "map_of entry ''ID'' = Some key" "key \<noteq> []" "entry_title entry \<noteq> []"
    by (auto simp: processed_def split: option.splits)
  from search_returns obtain r st1 where
    s: "search_dblp_entry net (entry_title entry) key 5 2
          (emit Info (Searching key (entry_title entry)) st) = (Inr r, st1)" by blast
  from update_entry_decide [OF k(1,2) refl k(3) s, of loads upd failed] assms(2)
  obtain oc where oc: "decide loads r = Inr oc"
    and res: "upd' = upd @ [output_entry entry oc]" "failed' = failed @ failure_key entry oc"
    by (cases "decide loads r") (auto simp: k split: outcome.splits)
  from k assms(1) s oc have "entry_outcome net loads entry st = Some oc"
    by (simp add: entry_outcome_def)
  with res show ?thesis by blast
qed

lemma update_loop_run_outcomes:
  "update_loop net loads entries (upd, failed) st = (Inr (upd', failed'), st') \<Longrightarrow>
   length (run_outcomes net loads entries st) = length (filter processed entries) \<and>
   upd' = upd @ map2 output_entry (filter processed entries) (run_outcomes net loads entries st) \<and>
   failed' =
     failed @ concat (map2 failure_key (filter processed entries) (run_outcomes net loads entries st))"
proof (induction entries arbitrary: upd failed st)
  case Nil
  then show ?case by simp
next
  case (Cons e es)
  from Cons.prems obtain u1 f1 st1 where
    step: "update_entry net loads e (upd, failed) st = (Inr (u1, f1), st1)"
    and rest: "update_loop net loads es (u1, f1) st1 = (Inr (upd', failed'), st')"
    by (auto split: prod.splits sum.splits)
  from step have "snd (update_entry net loads e (upd, failed) st) = st1" by simp
  then have st1: "snd (update_entry net loads e ([], []) st) = st1"
    by (simp add: update_entry_state [of net loads e "([], [])" st "(upd, failed)"])
  note IH = Cons.IH [OF rest]
  show ?case
  proof (cases "processed e")
    case False
    with step have "u1 = upd" "f1 = failed" by (simp_all add: update_entry_skip)
    with IH False st1 show ?thesis by (simp add: entry_outcome_skip)
  next
    case True
    from update_entry_outcome [OF True step] obtain oc where
      "entry_outcome net loads e st = Some oc"
      "u1 = upd @ [output_entry e oc]" "f1 = failed @ failure_key e oc" by blast
    with IH True st1 show ?thesis by simp
  qed
qed




text \<open>The run of the examples: one entry replaced, two skipped, two kept.\<close>

lemma example_run:
  "fst (update_bib_file dblp_net example_loads [foo2020, nokey, bar2021, braces, blank]
          ''out.bib'' start) =
     Inr ([AList.update ''ID'' ''foo2020'' attention17, bar2021, blank], [''bar2021'', ''blank''])"
  by code_simp

section \<open>The claims\<close>

text \<open>
  C1 (key stability). In a run that completes, the output entries carry, position by
  position, the citation keys of the processed source entries: the \<open>ID\<close> field of
  each output entry is the \<open>ID\<close> field of the source entry it stands for, whether the
  entry was replaced by a fetched record or kept.
\<close>

theorem key_stability:
  assumes "fst (update_bib_file net loads entries output_file st) =
             Inr (updated_entries, failed_keys)"
  shows "map (\<lambda>e. map_of e ''ID'') updated_entries =
         map (\<lambda>e. map_of e ''ID'') (filter processed entries)"
proof -
  from update_bib_file_outcomes [OF assms] obtain ocs where
    len: "length ocs = length (filter processed entries)" and
    out: "updated_entries = map2 output_entry (filter processed entries) ocs"
    by blast
  have "\<forall>src \<in> set (filter processed entries). processed src" by simp
  from map2_output_keys [OF len this] show ?thesis unfolding out .
qed

text \<open>The example run: \<open>foo2020\<close> is replaced, \<open>bar2021\<close> and \<open>blank\<close> are kept.\<close>

theorem key_stability_witness:
  "fst (update_bib_file dblp_net example_loads [foo2020, nokey, bar2021, braces, blank]
          ''out.bib'' start) =
     Inr ([AList.update ''ID'' ''foo2020'' attention17, bar2021, blank], [''bar2021'', ''blank'']) \<and>
   map (\<lambda>e. map_of e ''ID'') [AList.update ''ID'' ''foo2020'' attention17, bar2021, blank] =
   map (\<lambda>e. map_of e ''ID'') (filter processed [foo2020, nokey, bar2021, braces, blank]) \<and>
   map (\<lambda>e. map_of e ''ID'') (filter processed [foo2020, nokey, bar2021, braces, blank]) =
     [Some ''foo2020'', Some ''bar2021'', Some ''blank'']"
proof -
  have keys: "map (\<lambda>e. map_of e ''ID'') (filter processed [foo2020, nokey, bar2021, braces, blank]) =
     [Some ''foo2020'', Some ''bar2021'', Some ''blank'']"
    by code_simp
  from example_run key_stability [OF example_run] keys show ?thesis by blast
qed

text \<open>
  C2 (order preservation). In a run that completes, the output has exactly one entry for
  every input entry with a non-empty brace-stripped title and a non-empty key, no more
  and no fewer, and in the order of the input: the output entry at a position is the one
  made of the processed source entry at that position (the source entry itself, or a
  parsed record under the source's key).
\<close>

theorem order_preservation:
  assumes "fst (update_bib_file net loads entries output_file st) =
             Inr (updated_entries, failed_keys)"
  shows "length updated_entries = length (filter processed entries) \<and>
         list_all2 (\<lambda>src out. \<exists>oc. out = output_entry src oc)
           (filter processed entries) updated_entries"
proof -
  from update_bib_file_outcomes [OF assms] obtain ocs where
    len: "length ocs = length (filter processed entries)" and
    out: "updated_entries = map2 output_entry (filter processed entries) ocs"
    by blast
  from len out have "length updated_entries = length (filter processed entries)" by simp
  moreover from len out have
    "list_all2 (\<lambda>src out. \<exists>oc. out = output_entry src oc)
       (filter processed entries) updated_entries"
    by (auto simp: list_all2_conv_all_nth)
  ultimately show ?thesis ..
qed

theorem order_preservation_witness:
  "fst (update_bib_file dblp_net example_loads [foo2020, nokey, bar2021, braces, blank]
          ''out.bib'' start) =
     Inr ([AList.update ''ID'' ''foo2020'' attention17, bar2021, blank], [''bar2021'', ''blank'']) \<and>
   length [AList.update ''ID'' ''foo2020'' attention17, bar2021, blank] =
     length (filter processed [foo2020, nokey, bar2021, braces, blank]) \<and>
   list_all2 (\<lambda>src out. \<exists>oc. out = output_entry src oc)
     (filter processed [foo2020, nokey, bar2021, braces, blank])
     [AList.update ''ID'' ''foo2020'' attention17, bar2021, blank] \<and>
   filter processed [foo2020, nokey, bar2021, braces, blank] = [foo2020, bar2021, blank]"
proof -
  have srcs: "filter processed [foo2020, nokey, bar2021, braces, blank] = [foo2020, bar2021, blank]"
    by code_simp
  from example_run order_preservation [OF example_run] srcs show ?thesis by blast
qed

text \<open>
  C3 (failure list, amended). In a run that completes, the processed entries have their
  outcomes one by one, each the decision on what the query answered for that entry, and
  the two lists follow from them: the output is the list of the entries the outcomes
  leave, and the failure list is, in order, the keys of exactly the entries that were
  kept (no record, an empty record, or a record that parsed to no entry). A kept
  entry's output is its source entry, unchanged; a replaced entry adds no key, whatever
  the record that replaces it.
\<close>

theorem failure_list_kept:
  assumes "fst (update_bib_file net loads entries output_file st) =
             Inr (updated_entries, failed_keys)"
  shows "length (run_outcomes net loads entries st) = length (filter processed entries) \<and>
         updated_entries =
           map2 output_entry (filter processed entries) (run_outcomes net loads entries st) \<and>
         failed_keys =
           concat (map2 failure_key (filter processed entries)
                     (run_outcomes net loads entries st))"
proof -
  from update_bib_file_Inr [OF assms] obtain st' where
    "update_loop net loads entries ([], []) st = (Inr (updated_entries, failed_keys), st')" ..
  from update_loop_run_outcomes [OF this] show ?thesis by simp
qed

text \<open>
  In the example run the first entry is replaced and the two others are kept, one for
  want of a hit and one for its empty record: their two keys are the failure list.
\<close>

theorem failure_list_kept_witness:
  "fst (update_bib_file dblp_net example_loads [foo2020, nokey, bar2021, braces, blank]
          ''out.bib'' start) =
     Inr ([AList.update ''ID'' ''foo2020'' attention17, bar2021, blank], [''bar2021'', ''blank'']) \<and>
   run_outcomes dblp_net example_loads [foo2020, nokey, bar2021, braces, blank] start =
     [Replaced attention17, Kept, Kept] \<and>
   length (run_outcomes dblp_net example_loads [foo2020, nokey, bar2021, braces, blank] start) =
     length (filter processed [foo2020, nokey, bar2021, braces, blank]) \<and>
   [AList.update ''ID'' ''foo2020'' attention17, bar2021, blank] =
     map2 output_entry (filter processed [foo2020, nokey, bar2021, braces, blank])
       (run_outcomes dblp_net example_loads [foo2020, nokey, bar2021, braces, blank] start) \<and>
   [''bar2021'', ''blank''] =
     concat (map2 failure_key (filter processed [foo2020, nokey, bar2021, braces, blank])
               (run_outcomes dblp_net example_loads [foo2020, nokey, bar2021, braces, blank] start))"
proof -
  have ocs: "run_outcomes dblp_net example_loads [foo2020, nokey, bar2021, braces, blank] start =
               [Replaced attention17, Kept, Kept]"
    by code_simp
  from example_run ocs failure_list_kept [OF example_run] show ?thesis by blast
qed

text \<open>
  The claim as it was stated does not hold from right to left. The source entry
  \<open>doe2020\<close> is the record DBLP has for its title, under its own key (its title has
  no capital letter, so the input parser leaves it as it is): the record is fetched,
  parsed and put in the entry's place under the key \<open>doe2020\<close>. The output entry is
  identical to the source entry, and the failure list is empty.
\<close>

theorem failure_list_counterexample:
  "fst (update_bib_file dblp_net example_loads [doe2020] ''out.bib'' start) =
     Inr ([doe2020], []) \<and>
   run_outcomes dblp_net example_loads [doe2020] start = [Replaced doe20]"
  by code_simp







text \<open>
  C6 (zero-hit short-circuit). If the first search request (there is one when
  \<open>max_retries\<close> is positive) is answered with status 200 and a body whose hit list
  is empty or absent, the query function returns \<open>None\<close> at once: the trace grows by
  that one request and the message \<open>NoResults\<close> at info severity, with no sleep and
  no second request.
\<close>

theorem zero_hit_short_circuit:
  assumes "0 < max_retries"
    and "net (search_request title) (world st) = (Inr resp, w')"
    and "status_code resp = 200"
    and "json resp = Some data"
    and "get_hits data = Inr hits"
    and "\<not> truthy hits"
  shows "search_dblp_entry net title key max_retries delay st =
           (Inr None,
            \<lparr>world = w',
             trace = trace st @
               [Request (search_request title),
                Print (NoResults key title),
                Log Info (NoResults key title)]\<rparr>)"
proof -
  from assms(2-6) have
    "try_block net title key delay 0 st =
       (Return None, 0,
        \<lparr>world = w',
         trace = trace st @
           [Request (search_request title), Print (NoResults key title),
            Log Info (NoResults key title)]\<rparr>)"
    by (simp add: try_block_def http_get_def emit_def record_event_def)
  with assms(1) show ?thesis
    unfolding search_dblp_entry_def by (subst search_loop.simps) simp
qed

theorem zero_hit_short_circuit_witness:
  "(0::int) < 5 \<and>
   dblp_net (search_request ''An Unknown Paper'') (world start) =
     (Inr (ok [] (Some no_hits_json)), ()) \<and>
   status_code (ok [] (Some no_hits_json)) = 200 \<and>
   json (ok [] (Some no_hits_json)) = Some no_hits_json \<and>
   get_hits no_hits_json = Inr (PList []) \<and>
   \<not> truthy (PList []) \<and>
   search_dblp_entry dblp_net ''An Unknown Paper'' ''bar2021'' 5 2 start =
     (Inr None,
      \<lparr>world = (),
       trace = trace start @
         [Request (search_request ''An Unknown Paper''),
          Print (NoResults ''bar2021'' ''An Unknown Paper''),
          Log Info (NoResults ''bar2021'' ''An Unknown Paper'')]\<rparr>)"
proof -
  have h1: "(0::int) < 5" by simp
  have h2: "dblp_net (search_request ''An Unknown Paper'') (world start) =
              (Inr (ok [] (Some no_hits_json)), ())"
    by (simp add: dblp_net_def search_request_def)
  have h3: "status_code (ok [] (Some no_hits_json)) = 200" by (simp add: ok_def)
  have h4: "json (ok [] (Some no_hits_json)) = Some no_hits_json" by (simp add: ok_def)
  have h5: "get_hits no_hits_json = Inr (PList [])" by (simp add: get_hits_def no_hits_json_def)
  have h6: "\<not> truthy (PList [])" by simp
  from zero_hit_short_circuit
         [where net = dblp_net and title = "''An Unknown Paper''" and st = start
            and key = "''bar2021''" and delay = 2, OF h1 h2 h3 h4 h5 h6]
       h1 h2 h3 h4 h5 h6
  show ?thesis by simp
qed

text \<open>
  C7 (silent skip). An entry without a title (or with one that is empty once the braces
  are stripped) or without a key (or with an empty one) goes through the loop body with
  no effect at all: both lists and the state are as they were, so nothing is logged,
  requested or raised. A run on an input with such an entry is the run on the input
  without it: same output, same failure list, same trace.
\<close>

theorem malformed_entry_skipped:
  assumes "entry_title entry = [] \<or> map_of entry ''ID'' = None \<or> map_of entry ''ID'' = Some []"
  shows "update_entry net loads entry acc st = (Inr acc, st) \<and>
         update_bib_file net loads (before @ entry # after) output_file st =
         update_bib_file net loads (before @ after) output_file st"
proof -
  from assms have "\<not> processed entry" by (auto simp: processed_def)
  then have skip: "\<And>acc st. update_entry net loads entry acc st = (Inr acc, st)"
    by (simp add: update_entry_skip)
  have "update_loop net loads (before @ entry # after) ([], []) st =
        update_loop net loads (before @ after) ([], []) st"
    by (simp add: update_loop_append skip split: prod.splits sum.splits)
  with skip show ?thesis by (simp add: update_bib_file_def)
qed

theorem malformed_entry_skipped_witness:
  "(entry_title braces = [] \<or> map_of braces ''ID'' = None \<or> map_of braces ''ID'' = Some []) \<and>
   update_entry dblp_net example_loads braces ([foo2020], [''foo2020'']) start =
     (Inr ([foo2020], [''foo2020'']), start) \<and>
   update_bib_file dblp_net example_loads ([foo2020] @ braces # [bar2021]) ''out.bib'' start =
   update_bib_file dblp_net example_loads ([foo2020] @ [bar2021]) ''out.bib'' start"
proof -
  have h: "entry_title braces = [] \<or> map_of braces ''ID'' = None \<or> map_of braces ''ID'' = Some []"
    by (simp add: entry_title_def braces_def)
  from malformed_entry_skipped
         [OF h, of dblp_net example_loads "([foo2020], [''foo2020''])" start "[foo2020]"
            "[bar2021]" "''out.bib''"]
       h
  show ?thesis by blast
qed

text \<open>
  C8 (idempotence on no-op). When the query returns \<open>None\<close> for every title, key and
  state, the run completes with the processed input entries as its output (and their keys
  as its failure list), and a second run, on that output and from the state the first run
  left, gives the same output and the same failure list again.
\<close>

theorem noop_idempotent:
  assumes "\<forall>title key s. fst (search_dblp_entry net title key 5 2 s) = Inr None"
  shows "\<exists>st1 st2.
           update_bib_file net loads entries output_file st =
             (Inr (filter processed entries,
                   List.map_filter (\<lambda>e. map_of e ''ID'') (filter processed entries)), st1) \<and>
           update_bib_file net loads (filter processed entries) output_file st1 =
             (Inr (filter processed entries,
                   List.map_filter (\<lambda>e. map_of e ''ID'') (filter processed entries)), st2)"
proof -
  have run: "\<exists>st'. update_bib_file net loads es output_file s =
               (Inr (filter processed es,
                     List.map_filter (\<lambda>e. map_of e ''ID'') (filter processed es)), st')"
    for es s
  proof -
    from update_loop_none [OF assms, of loads es "[]" "[]" s] obtain st' where
      "update_loop net loads es ([], []) s =
         (Inr (filter processed es,
               List.map_filter (\<lambda>e. map_of e ''ID'') (filter processed es)), st')"
      by auto
    then show ?thesis by (simp add: update_bib_file_def Let_def)
  qed
  from run [of entries st] obtain st1 where
    1: "update_bib_file net loads entries output_file st =
          (Inr (filter processed entries,
                List.map_filter (\<lambda>e. map_of e ''ID'') (filter processed entries)), st1)" ..
  from run [of "filter processed entries" st1] obtain st2 where
    2: "update_bib_file net loads (filter processed entries) output_file st1 =
          (Inr (filter processed entries,
                List.map_filter (\<lambda>e. map_of e ''ID'') (filter processed entries)), st2)"
    by auto
  from 1 2 show ?thesis by blast
qed

text \<open>With the network down the query returns \<open>None\<close> for every entry.\<close>

theorem noop_idempotent_witness:
  "(\<forall>title key s. fst (search_dblp_entry offline_net title key 5 2 s) = Inr None) \<and>
   (\<exists>st1 st2.
      update_bib_file offline_net example_loads [foo2020, nokey, bar2021] ''out.bib'' start =
        (Inr (filter processed [foo2020, nokey, bar2021],
              List.map_filter (\<lambda>e. map_of e ''ID'') (filter processed [foo2020, nokey, bar2021])),
         st1) \<and>
      update_bib_file offline_net example_loads (filter processed [foo2020, nokey, bar2021])
          ''out.bib'' st1 =
        (Inr (filter processed [foo2020, nokey, bar2021],
              List.map_filter (\<lambda>e. map_of e ''ID'') (filter processed [foo2020, nokey, bar2021])),
         st2))"
proof -
  have h: "\<forall>title key s. fst (search_dblp_entry offline_net title key 5 2 s) = Inr None"
    by (simp add: search_dblp_entry_def search_loop.simps try_block_def http_get_def
          offline_net_def sleep_def sleep_max_def emit_def record_event_def)
  from h noop_idempotent [OF h, of example_loads "[foo2020, nokey, bar2021]" "''out.bib''" start]
  show ?thesis by (rule conjI)
qed

text \<open>
  C9 (empty raw record). When the query returns the empty string for a processed entry
  (the record fetch answered 200 with an empty body), the loop body does what it does
  for \<open>None\<close>: it does not call the parser, appends the source entry to the output and
  its key to the failure list, and leaves in the trace the \<open>Keeping\<close> message at info
  severity followed by the one-second sleep, and no \<open>NoParsed\<close> warning.
\<close>

theorem empty_record_kept:
  assumes "map_of entry ''ID'' = Some key" and "key \<noteq> []" and "entry_title entry \<noteq> []"
    and "search_dblp_entry net (entry_title entry) key 5 2
           (emit Info (Searching key (entry_title entry)) st) = (Inr r, st1)"
    and "r = Some [] \<or> r = None"
  shows "update_entry net loads entry (updated_entries, failed_keys) st =
           (Inr (updated_entries @ [entry], failed_keys @ [key]),
            st1\<lparr>trace := trace st1 @
                  [Print (Keeping key (entry_title entry)),
                   Log Info (Keeping key (entry_title entry)),
                   Sleep 1]\<rparr>)"
  using assms by (auto simp: update_entry_def Let_def pause_eq emit_def record_event_def)

text \<open>The record of \<open>blank\<close> is an empty body.\<close>

theorem empty_record_kept_witness:
  "map_of blank ''ID'' = Some ''blank'' \<and> ''blank'' \<noteq> [] \<and> entry_title blank \<noteq> [] \<and>
   search_dblp_entry dblp_net (entry_title blank) ''blank'' 5 2
       (emit Info (Searching ''blank'' (entry_title blank)) start) =
     (Inr (Some []),
      \<lparr>world = (),
       trace = [Print (Searching ''blank'' ''Blank''),
                Log Info (Searching ''blank'' ''Blank''),
                Request (search_request ''Blank''),
                Request \<lparr>url = ''https://dblp.org/rec/b.bib'', params = []\<rparr>]\<rparr>) \<and>
   update_entry dblp_net example_loads blank ([foo2020], []) start =
     (Inr ([foo2020, blank], [''blank'']),
      \<lparr>world = (),
       trace = [Print (Searching ''blank'' ''Blank''),
                Log Info (Searching ''blank'' ''Blank''),
                Request (search_request ''Blank''),
                Request \<lparr>url = ''https://dblp.org/rec/b.bib'', params = []\<rparr>,
                Print (Keeping ''blank'' ''Blank''),
                Log Info (Keeping ''blank'' ''Blank''),
                Sleep 1]\<rparr>)"
proof -
  have h1: "map_of blank ''ID'' = Some ''blank''" by (simp add: blank_def)
  have h2: "''blank'' \<noteq> []" by simp
  have h3: "entry_title blank \<noteq> []" by (simp add: entry_title_def blank_def)
  have t: "entry_title blank = ''Blank''" by (simp add: entry_title_def blank_def)
  have h4: "search_dblp_entry dblp_net (entry_title blank) ''blank'' 5 2
              (emit Info (Searching ''blank'' (entry_title blank)) start) =
            (Inr (Some []),
             \<lparr>world = (),
              trace = [Print (Searching ''blank'' ''Blank''),
                       Log Info (Searching ''blank'' ''Blank''),
                       Request (search_request ''Blank''),
                       Request \<lparr>url = ''https://dblp.org/rec/b.bib'', params = []\<rparr>]\<rparr>)"
    by code_simp
  have h5: "Some [] = Some [] \<or> Some [] = (None :: string option)" by simp
  from empty_record_kept [OF h1 h2 h3 h4 h5, of example_loads "[foo2020]" "[]"] t
  have "update_entry dblp_net example_loads blank ([foo2020], []) start =
     (Inr ([foo2020, blank], [''blank'']),
      \<lparr>world = (),
       trace = [Print (Searching ''blank'' ''Blank''),
                Log Info (Searching ''blank'' ''Blank''),
                Request (search_request ''Blank''),
                Request \<lparr>url = ''https://dblp.org/rec/b.bib'', params = []\<rparr>,
                Print (Keeping ''blank'' ''Blank''),
                Log Info (Keeping ''blank'' ''Blank''),
                Sleep 1]\<rparr>)"
    by simp
  with h1 h2 h3 h4 show ?thesis by blast
qed

text \<open>
  C10 (zero-retry edge case). Called with \<open>max_retries \<le> 0\<close>, the query function
  never enters the loop: it issues no request and does not sleep (the world is as it
  was, and the trace grows by the final message only), logs \<open>AllFailed\<close> at error
  severity, and returns \<open>None\<close>.
\<close>

theorem zero_retries_no_request:
  assumes "max_retries \<le> 0"
  shows "search_dblp_entry net title key max_retries delay st =
           (Inr None,
            st\<lparr>trace := trace st @
                 [Print (AllFailed max_retries key title),
                  Log Error (AllFailed max_retries key title)]\<rparr>)"
  using assms
  by (simp add: search_dblp_entry_def search_loop.simps emit_def record_event_def)

theorem zero_retries_no_request_witness:
  "(0::int) \<le> 0 \<and>
   search_dblp_entry dblp_net ''Attention Is All You Need'' ''foo2020'' 0 2 start =
     (Inr None,
      \<lparr>world = (),
       trace = [Print (AllFailed 0 ''foo2020'' ''Attention Is All You Need''),
                Log Error (AllFailed 0 ''foo2020'' ''Attention Is All You Need'')]\<rparr>)"
proof -
  have h: "(0::int) \<le> 0" by simp
  from zero_retries_no_request
         [OF h, of dblp_net "''Attention Is All You Need''" "''foo2020''" 2 start]
  show ?thesis by (simp add: start_def)
qed

end
